theory Spec2Isabelle
  imports Complex_Main "HOL-Library.Word"
begin

section \<open>JavaScript values\<close>

text \<open>
  A JavaScript string is a sequence of UTF-16 code units. Literals of the source that are
  plain ASCII are written with \<open>ascii\<close>; the Cyrillic fallback text is spelled out
  code unit by code unit.
\<close>

type_synonym jsstring = "16 word list"

definition ascii :: "string \<Rightarrow> jsstring" where
  "ascii s = map (\<lambda>c. of_nat (of_char c)) s"

text \<open>
  A Number is an IEEE double: not-a-number, the two infinities, negative zero, or a finite
  value (a rational; \<open>Finite 0\<close> is positive zero).
\<close>

datatype jsnum = NaN | PosInfinity | NegInfinity | NegZero | Finite rat

text \<open>
  The values the program handles at run time: what \<open>response.json()\<close> decodes, what a
  promise rejects with, what the voice client returns. \<open>JError m\<close> is any object that is
  an \<open>instanceof Error\<close>, with its \<open>message\<close>; \<open>JBuffer bs\<close> is an ArrayBuffer (or
  Buffer) holding the bytes \<open>bs\<close>; \<open>JObj\<close> is a plain object, its own properties in order.
\<close>

datatype jsval =
    JUndefined
  | JNull
  | JBool bool
  | JNum jsnum
  | JStr jsstring
  | JArr "jsval list"
  | JObj "(jsstring \<times> jsval) list"
  | JError jsstring
  | JBuffer "8 word list"

text \<open>ToBoolean: what \<open>if (v)\<close> and \<open>!v\<close> test.\<close>

fun truthy :: "jsval \<Rightarrow> bool" where
  "truthy JUndefined = False"
| "truthy JNull = False"
| "truthy (JBool b) = b"
| "truthy (JNum NaN) = False"
| "truthy (JNum NegZero) = False"
| "truthy (JNum (Finite r)) = (r \<noteq> 0)"
| "truthy (JNum PosInfinity) = True"
| "truthy (JNum NegInfinity) = True"
| "truthy (JStr s) = (s \<noteq> [])"
| "truthy (JArr xs) = True"
| "truthy (JObj ps) = True"
| "truthy (JError m) = True"
| "truthy (JBuffer bs) = True"

text \<open>\<open>typeof v === 'string'\<close> and \<open>v instanceof Error\<close>.\<close>

fun typeof_string :: "jsval \<Rightarrow> bool" where
  "typeof_string (JStr s) = True"
| "typeof_string v = False"

fun instanceof_Error :: "jsval \<Rightarrow> bool" where
  "instanceof_Error (JError m) = True"
| "instanceof_Error v = False"

text \<open>
  Reading a property \<open>v.k\<close>, for the names the program reads (\<open>error\<close>, \<open>response\<close>,
  \<open>byteLength\<close>), none of which a built-in prototype of strings, numbers, booleans, arrays,
  plain objects or errors defines. \<open>None\<close> is the TypeError that reading a property of
  \<open>undefined\<close> or \<open>null\<close> throws; a missing property reads as \<open>undefined\<close>.
\<close>

fun getProp :: "jsval \<Rightarrow> jsstring \<Rightarrow> jsval option" where
  "getProp JUndefined k = None"
| "getProp JNull k = None"
| "getProp (JObj ps) k = Some (case map_of ps k of None \<Rightarrow> JUndefined | Some v \<Rightarrow> v)"
| "getProp (JBuffer bs) k =
     Some (if k = ascii ''byteLength'' then JNum (Finite (of_nat (length bs))) else JUndefined)"
| "getProp v k = Some JUndefined"

text \<open>\<open>v === 0\<close>: strict equality with the number zero, which both zeros satisfy.\<close>

definition strict_eq_zero :: "jsval \<Rightarrow> bool" where
  "strict_eq_zero v = (v = JNum (Finite 0) \<or> v = JNum NegZero)"

text \<open>
  \<open>String.prototype.trim\<close> strips WhiteSpace and LineTerminator code units from both
  ends: TAB, VT, FF, SP, NBSP, ZWNBSP and the Unicode space separators; LF, CR, LS, PS.
\<close>

definition is_WhiteSpace :: "16 word \<Rightarrow> bool" where
  "is_WhiteSpace c =
     (c = 0x0009 \<or> c = 0x000B \<or> c = 0x000C \<or> c = 0x0020 \<or> c = 0x00A0 \<or> c = 0xFEFF \<or>
      c = 0x1680 \<or> (0x2000 \<le> c \<and> c \<le> 0x200A) \<or> c = 0x202F \<or> c = 0x205F \<or>
      c = 0x3000)"

definition is_LineTerminator :: "16 word \<Rightarrow> bool" where
  "is_LineTerminator c = (c = 0x000A \<or> c = 0x000D \<or> c = 0x2028 \<or> c = 0x2029)"

definition trim :: "jsstring \<Rightarrow> jsstring" where
  "trim s =
     (let ws = (\<lambda>c. is_WhiteSpace c \<or> is_LineTerminator c)
      in rev (dropWhile ws (rev (dropWhile ws s))))"

text \<open>
  \<open>Number.prototype.toString\<close> on an integer below \<open>10^21\<close> in magnitude, which every
  time value is: its decimal digits, with a minus sign when negative.
\<close>

fun decimal :: "nat \<Rightarrow> jsstring" where
  "decimal n =
     (if n < 10 then [0x30 + of_nat n] else decimal (n div 10) @ [0x30 + of_nat (n mod 10)])"

definition Number_toString :: "int \<Rightarrow> jsstring" where
  "Number_toString i = (if i < 0 then 0x2D # decimal (nat (- i)) else decimal (nat i))"

section \<open>utils.ts: formatErrorResponse\<close>

definition formatErrorResponse :: "jsval \<Rightarrow> jsstring" where
  "formatErrorResponse error =
     (if instanceof_Error error
      then (case error of JError message \<Rightarrow> message | _ \<Rightarrow> [])
      else ascii ''An unexpected error occurred'')"

section \<open>The widget and its environment\<close>

text \<open>
  A settled promise: fulfilled with a value, or rejected with a reason. The environment's
  answers (\<open>fetch\<close>, \<open>response.json()\<close>, \<open>response.arrayBuffer()\<close>, \<open>audio.play()\<close>,
  the voice client) enter the model as settled promises.
\<close>

datatype 'a settled = Resolves 'a | Rejects jsval

text \<open>
  The value a catch clause binds, when the clause only logs it: \<open>Value v\<close> is the thrown
  value \<open>v\<close> itself, \<open>Error_of v\<close> the object \<open>new Error(v)\<close> for a \<open>v\<close> that need not be
  a string, \<open>TypeError\<close> the error of reading a property of \<open>undefined\<close> or \<open>null\<close>.
\<close>

datatype thrown = Value jsval | Error_of jsval | TypeError

record message =
  id' :: jsstring
  text' :: jsval
  isAI :: bool
  timestamp :: jsstring

text \<open>
  An HTTP request given to \<open>fetch\<close>; \<open>body\<close> is the value the source hands to
  \<open>JSON.stringify\<close>.
\<close>

record request =
  url :: jsstring
  method' :: jsstring
  headers :: "(jsstring \<times> jsstring) list"
  body :: jsval

record response =
  status :: nat
  json :: "jsval settled"
  arrayBuffer :: "8 word list settled"

definition ok :: "response \<Rightarrow> bool" where
  "ok r = (200 \<le> status r \<and> status r \<le> 299)"

text \<open>
  What a handler reads from the clock when it runs: \<open>Date.now()\<close>, \<open>new Date()\<close> (both in
  milliseconds since the epoch) and the locale's \<open>toLocaleTimeString\<close> with the options
  of \<open>formatTime\<close>.
\<close>

record runtime =
  Date_now :: int
  new_Date :: int
  toLocaleTimeString :: "int \<Rightarrow> jsstring"

record event =
  defaultPrevented :: bool

text \<open>The closures the source registers: the timeout's and the \<open>onended\<close> handler's.\<close>

datatype callback = SetShowNotification bool | RevokeObjectURL nat

record blob =
  parts :: "8 word list"
  type' :: jsstring

datatype playback = Idle | Starting | Playing | Ended | Failed

record audio =
  src :: nat
  onended :: "callback option"
  state :: playback

text \<open>
  The five \<open>useState\<close> cells of \<open>AIChat\<close>, then what its handlers touch outside them:
  the live interval (its period and the \<open>isOpen\<close> its callback closed over), the pending
  timeouts (delay and callback), the requests given to \<open>fetch\<close>, the lines of
  \<open>console.error\<close>, the object URLs created (URL \<open>n\<close> is the \<open>n\<close>-th) and revoked, and
  the Audio elements.
\<close>

record widget =
  isOpen :: bool
  messages :: "message list"
  input :: jsstring
  isLoading :: bool
  showNotification :: bool
  chatInterval :: "nat \<times> bool"
  timeouts :: "(nat \<times> callback) list"
  fetched :: "request list"
  console :: "(jsstring \<times> thrown) list"
  objectURLs :: "blob list"
  revoked :: "nat list"
  audios :: "audio list"

definition fetch :: "request \<Rightarrow> widget \<Rightarrow> widget" where
  "fetch req w = w\<lparr>fetched := fetched w @ [req]\<rparr>"

definition console_error :: "jsstring \<Rightarrow> thrown \<Rightarrow> widget \<Rightarrow> widget" where
  "console_error label error w = w\<lparr>console := console w @ [(label, error)]\<rparr>"

definition formatTime :: "runtime \<Rightarrow> int \<Rightarrow> jsstring" where
  "formatTime rt date = toLocaleTimeString rt date"

section \<open>AIChat: handleSubmit\<close>

definition fallback_text :: jsstring where
  "fallback_text =
     [0x418, 0x437, 0x432, 0x438, 0x43D, 0x438, 0x442, 0x435, 0x2C, 0x20, 0x43F, 0x440, 0x43E,
      0x438, 0x437, 0x43E, 0x448, 0x43B, 0x430, 0x20, 0x43E, 0x448, 0x438, 0x431, 0x43A, 0x430,
      0x2E, 0x20, 0x41F, 0x43E, 0x43F, 0x440, 0x43E, 0x431, 0x443, 0x439, 0x442, 0x435, 0x20,
      0x43F, 0x43E, 0x437, 0x436, 0x435, 0x2E]"

datatype progress = Returned | Awaiting

text \<open>
  The call up to \<open>await fetch\<close>. \<open>input\<close> and \<open>isLoading\<close> are the values of the render
  whose handler runs, here the current ones. The message list is updated through the
  functional form \<open>prev => [...prev, m]\<close>, so each update appends to the list as it is then.
\<close>

definition handleSubmit_begin :: "runtime \<Rightarrow> event \<Rightarrow> widget \<Rightarrow> event \<times> widget \<times> progress" where
  "handleSubmit_begin rt e w =
     (let e' = e\<lparr>defaultPrevented := True\<rparr> in
      if trim (input w) = [] \<or> isLoading w then (e', w, Returned)
      else
        let userMessage =
              \<lparr>id' = Number_toString (Date_now rt), text' = JStr (input w), isAI = False,
               timestamp = formatTime rt (new_Date rt)\<rparr>;
            w1 = w\<lparr>messages := messages w @ [userMessage]\<rparr>;
            w2 = w1\<lparr>input := []\<rparr>;
            w3 = w2\<lparr>isLoading := True\<rparr>;
            w4 = fetch
                  \<lparr>url = ascii ''/api/chat'', method' = ascii ''POST'',
                   headers = [(ascii ''Content-Type'', ascii ''application/json'')],
                   body = JObj [(ascii ''message'', JStr (input w))]\<rparr> w3
        in (e', w4, Awaiting))"

text \<open>The rest of the try block, once the promise of \<open>fetch\<close> has settled.\<close>

definition handleSubmit_try :: "runtime \<Rightarrow> response settled \<Rightarrow> widget \<Rightarrow> thrown + widget" where
  "handleSubmit_try rt fetch_result w =
     (case fetch_result of
        Rejects e \<Rightarrow> Inl (Value e)
      | Resolves response \<Rightarrow>
          if \<not> ok response then Inl (Value (JError (ascii ''Failed to get AI response'')))
          else
            (case json response of
               Rejects e \<Rightarrow> Inl (Value e)
             | Resolves data \<Rightarrow>
                 (case getProp data (ascii ''error'') of
                    None \<Rightarrow> Inl TypeError
                  | Some data_error \<Rightarrow>
                      if truthy data_error then Inl (Error_of data_error)
                      else
                        (case getProp data (ascii ''response'') of
                           None \<Rightarrow> Inl TypeError
                         | Some data_response \<Rightarrow>
                             let aiMessage =
                                   \<lparr>id' = Number_toString (Date_now rt + 1),
                                    text' = data_response, isAI = True,
                                    timestamp = formatTime rt (new_Date rt)\<rparr>
                             in Inr (w\<lparr>messages := messages w @ [aiMessage]\<rparr>)))))"

definition handleSubmit_catch :: "runtime \<Rightarrow> thrown \<Rightarrow> widget \<Rightarrow> widget" where
  "handleSubmit_catch rt error w =
     (let w1 = console_error (ascii ''Error getting AI response:'') error w
      in w1\<lparr>messages := messages w1 @
              [\<lparr>id' = Number_toString (Date_now rt), text' = JStr fallback_text, isAI = True,
                timestamp = formatTime rt (new_Date rt)\<rparr>]\<rparr>)"

text \<open>
  The continuation after \<open>await fetch\<close>: the try block, the catch clause, the finally
  clause. \<open>Inl\<close> would be an exception leaving \<open>handleSubmit\<close>.
\<close>

definition handleSubmit_resume :: "runtime \<Rightarrow> response settled \<Rightarrow> widget \<Rightarrow> thrown + widget" where
  "handleSubmit_resume rt fetch_result w =
     (let w' = (case handleSubmit_try rt fetch_result w of
                  Inl error \<Rightarrow> handleSubmit_catch rt error w
                | Inr w1 \<Rightarrow> w1)
      in Inr (w'\<lparr>isLoading := False\<rparr>))"

text \<open>
  One whole run with nothing in between: \<open>server\<close> answers the request, \<open>rt\<close> is the clock
  at the call and \<open>rt'\<close> the clock when the answer arrives.
\<close>

definition handleSubmit ::
  "runtime \<Rightarrow> runtime \<Rightarrow> (request \<Rightarrow> response settled) \<Rightarrow> event \<Rightarrow> widget \<Rightarrow> thrown + event \<times> widget" where
  "handleSubmit rt rt' server e w =
     (case handleSubmit_begin rt e w of
        (e', w1, Returned) \<Rightarrow> Inr (e', w1)
      | (e', w1, Awaiting) \<Rightarrow>
          (case handleSubmit_resume rt' (server (last (fetched w1))) w1 of
             Inl error \<Rightarrow> Inl error
           | Inr w2 \<Rightarrow> Inr (e', w2)))"

section \<open>AIChat: playAudio\<close>

text \<open>
  The browser's side. \<open>URL.createObjectURL\<close> registers the blob under a fresh URL, the
  next index; \<open>new Audio(url)\<close> makes an element; \<open>audio.play()\<close> starts it and returns
  a promise. When that promise settles the element is playing or has failed, and a playing
  element that reaches its end fires \<open>ended\<close>, which runs its \<open>onended\<close> handler.
\<close>

definition createObjectURL :: "blob \<Rightarrow> widget \<Rightarrow> nat \<times> widget" where
  "createObjectURL b w = (length (objectURLs w), w\<lparr>objectURLs := objectURLs w @ [b]\<rparr>)"

definition revokeObjectURL :: "nat \<Rightarrow> widget \<Rightarrow> widget" where
  "revokeObjectURL u w = w\<lparr>revoked := revoked w @ [u]\<rparr>"

definition new_Audio :: "nat \<Rightarrow> widget \<Rightarrow> nat \<times> widget" where
  "new_Audio u w =
     (length (audios w), w\<lparr>audios := audios w @ [\<lparr>src = u, onended = None, state = Idle\<rparr>]\<rparr>)"

definition play :: "nat \<Rightarrow> widget \<Rightarrow> widget" where
  "play a w = w\<lparr>audios := (audios w)[a := (audios w ! a)\<lparr>state := Starting\<rparr>]\<rparr>"

definition set_onended :: "nat \<Rightarrow> callback \<Rightarrow> widget \<Rightarrow> widget" where
  "set_onended a cb w = w\<lparr>audios := (audios w)[a := (audios w ! a)\<lparr>onended := Some cb\<rparr>]\<rparr>"

fun run_callback :: "callback \<Rightarrow> widget \<Rightarrow> widget" where
  "run_callback (SetShowNotification b) w = w\<lparr>showNotification := b\<rparr>"
| "run_callback (RevokeObjectURL u) w = revokeObjectURL u w"

definition media_play_settled :: "nat \<Rightarrow> unit settled \<Rightarrow> widget \<Rightarrow> widget" where
  "media_play_settled a played w =
     (if a < length (audios w) \<and> state (audios w ! a) = Starting
      then w\<lparr>audios := (audios w)[a := (audios w ! a)
               \<lparr>state := (case played of Resolves u \<Rightarrow> Playing | Rejects reason \<Rightarrow> Failed)\<rparr>]\<rparr>
      else w)"

definition media_ended :: "nat \<Rightarrow> widget \<Rightarrow> widget" where
  "media_ended a w =
     (if a < length (audios w) \<and> state (audios w ! a) = Playing
      then
        let w1 = w\<lparr>audios := (audios w)[a := (audios w ! a)\<lparr>state := Ended\<rparr>]\<rparr>
        in (case onended (audios w ! a) of None \<Rightarrow> w1 | Some cb \<Rightarrow> run_callback cb w1)
      else w)"

text \<open>The call up to \<open>await fetch\<close>.\<close>

definition playAudio_begin :: "jsval \<Rightarrow> widget \<Rightarrow> widget" where
  "playAudio_begin text w =
     fetch
       \<lparr>url = ascii ''/api/speech'', method' = ascii ''POST'',
        headers = [(ascii ''Content-Type'', ascii ''application/json'')],
        body = JObj [(ascii ''text'', text)]\<rparr> w"

text \<open>
  The try block from the settling of \<open>fetch\<close> to \<open>await audio.play()\<close>. On the way to
  that await it returns the element and the URL the rest of the block closes over.
\<close>

definition playAudio_try :: "response settled \<Rightarrow> widget \<Rightarrow> thrown + widget \<times> (nat \<times> nat) option" where
  "playAudio_try fetch_result w =
     (case fetch_result of
        Rejects e \<Rightarrow> Inl (Value e)
      | Resolves response \<Rightarrow>
          if \<not> ok response then Inl (Value (JError (ascii ''Failed to get audio'')))
          else
            (case arrayBuffer response of
               Rejects e \<Rightarrow> Inl (Value e)
             | Resolves audioBuffer \<Rightarrow>
                 if truthy (JBuffer audioBuffer) then
                   let audioBlob = \<lparr>parts = audioBuffer, type' = ascii ''audio/mpeg''\<rparr>;
                       (audioUrl, w1) = createObjectURL audioBlob w;
                       (audio, w2) = new_Audio audioUrl w1;
                       w3 = play audio w2
                   in Inr (w3, Some (audio, audioUrl))
                 else Inr (w, None)))"

definition playAudio_response :: "response settled \<Rightarrow> widget \<Rightarrow> thrown + widget \<times> (nat \<times> nat) option" where
  "playAudio_response fetch_result w =
     (case playAudio_try fetch_result w of
        Inl error \<Rightarrow> Inr (console_error (ascii ''Error playing audio:'') error w, None)
      | Inr r \<Rightarrow> Inr r)"

text \<open>
  The continuation after \<open>await audio.play()\<close>. It runs in the microtask that follows the
  settling of the promise, before any later event of the element.
\<close>

definition playAudio_played :: "nat \<times> nat \<Rightarrow> unit settled \<Rightarrow> widget \<Rightarrow> thrown + widget" where
  "playAudio_played closure played w =
     (case closure of (audio, audioUrl) \<Rightarrow>
        (case played of
           Rejects e \<Rightarrow> Inr (console_error (ascii ''Error playing audio:'') (Value e) w)
         | Resolves u \<Rightarrow> Inr (set_onended audio (RevokeObjectURL audioUrl) w)))"

text \<open>
  One whole run with nothing in between: \<open>server\<close> answers the request and \<open>played\<close> is
  how the promise of \<open>audio.play()\<close> settles. \<open>Inl\<close> would be an exception leaving
  \<open>playAudio\<close>.
\<close>

definition playAudio ::
  "jsval \<Rightarrow> (request \<Rightarrow> response settled) \<Rightarrow> unit settled \<Rightarrow> widget \<Rightarrow> thrown + widget" where
  "playAudio text server played w =
     (let w1 = playAudio_begin text w in
      case playAudio_response (server (last (fetched w1))) w1 of
        Inl error \<Rightarrow> Inl error
      | Inr (w2, None) \<Rightarrow> Inr w2
      | Inr (w2, Some (audio, audioUrl)) \<Rightarrow>
          playAudio_played (audio, audioUrl) played (media_play_settled audio played w2))"

section \<open>AIChat: the notification effect and the rendered toggle\<close>

definition setTimeout :: "callback \<Rightarrow> nat \<Rightarrow> widget \<Rightarrow> widget" where
  "setTimeout cb delay w = w\<lparr>timeouts := timeouts w @ [(delay, cb)]\<rparr>"

text \<open>
  The effect with dependency \<open>[isOpen]\<close>: its cleanup clears the running interval and its
  body starts a new one, every minute, whose callback closes over the \<open>isOpen\<close> of that
  render.
\<close>

definition useEffect_isOpen :: "widget \<Rightarrow> widget" where
  "useEffect_isOpen w = w\<lparr>chatInterval := (60000, isOpen w)\<rparr>"

text \<open>A state update that changes nothing renders nothing; one that does runs the effect.\<close>

definition setIsOpen :: "bool \<Rightarrow> widget \<Rightarrow> widget" where
  "setIsOpen b w = (if isOpen w = b then w else useEffect_isOpen (w\<lparr>isOpen := b\<rparr>))"

text \<open>The interval's callback, and the firing of the \<open>i\<close>-th pending timeout.\<close>

definition interval_tick :: "widget \<Rightarrow> widget" where
  "interval_tick w =
     (if \<not> snd (chatInterval w)
      then setTimeout (SetShowNotification False) 5000 (w\<lparr>showNotification := True\<rparr>)
      else w)"

definition timeout_fires :: "nat \<Rightarrow> widget \<Rightarrow> widget" where
  "timeout_fires i w =
     (if i < length (timeouts w)
      then run_callback (snd (timeouts w ! i))
             (w\<lparr>timeouts := take i (timeouts w) @ drop (Suc i) (timeouts w)\<rparr>)
      else w)"

text \<open>
  The rendered toggle button: present only when \<open>!isOpen\<close>, with the class
  \<open>notification\<close> exactly when \<open>showNotification\<close>. The indicator is visible when the
  button is rendered with that class.
\<close>

definition chat_toggle :: "widget \<Rightarrow> bool option" where
  "chat_toggle w = (if \<not> isOpen w then Some (showNotification w) else None)"

definition notification_visible :: "widget \<Rightarrow> bool" where
  "notification_visible w = (chat_toggle w = Some True)"

section \<open>AIChat: what can happen to a mounted widget\<close>

text \<open>
  The events of a mounted widget: the interval ticks, a pending timeout fires, the toggle
  or the close button is clicked, the input changes, the form is submitted, the chat
  request settles, a play button is clicked, the speech request settles, the promise of
  \<open>audio.play()\<close> settles, an element's playback ends. Continuations may run in any order
  and at any time, which covers every interleaving the event loop allows.
\<close>

datatype action =
    Tick
  | Timeout nat
  | ClickToggle
  | ClickClose
  | Change jsstring
  | Submit runtime
  | ChatSettled runtime "response settled"
  | ClickPlay jsval
  | SpeechSettled "response settled"
  | PlaySettled nat "unit settled"
  | MediaEnded nat

fun step :: "action \<Rightarrow> widget \<Rightarrow> widget" where
  "step Tick w = interval_tick w"
| "step (Timeout i) w = timeout_fires i w"
| "step ClickToggle w = (if \<not> isOpen w then setIsOpen True w else w)"
| "step ClickClose w = setIsOpen False w"
| "step (Change v) w = w\<lparr>input := v\<rparr>"
| "step (Submit rt) w = fst (snd (handleSubmit_begin rt \<lparr>defaultPrevented = False\<rparr> w))"
| "step (ChatSettled rt fetch_result) w =
     (case handleSubmit_resume rt fetch_result w of Inl error \<Rightarrow> w | Inr w' \<Rightarrow> w')"
| "step (ClickPlay text) w = playAudio_begin text w"
| "step (SpeechSettled fetch_result) w =
     (case playAudio_response fetch_result w of Inl error \<Rightarrow> w | Inr (w', closure) \<Rightarrow> w')"
| "step (PlaySettled a played) w =
     (if a < length (audios w) \<and> state (audios w ! a) = Starting
      then (case playAudio_played (a, src (audios w ! a)) played (media_play_settled a played w) of
              Inl error \<Rightarrow> w | Inr w' \<Rightarrow> w')
      else w)"
| "step (MediaEnded a) w = media_ended a w"

definition run :: "action list \<Rightarrow> widget \<Rightarrow> widget" where
  "run as w = fold step as w"

section \<open>utils.ts: textToSpeech\<close>

definition VOICE_CONFIG :: "(jsstring \<times> jsval) list" where
  "VOICE_CONFIG =
     [(ascii ''voiceId'', JStr (ascii ''your_voice_id_here'')),
      (ascii ''model'', JStr (ascii ''eleven_multilingual_v2''))]"

text \<open>
  The try block. \<open>apiKey\<close> is \<open>import.meta.env.PUBLIC_ELEVENLABS_API_KEY\<close> and \<open>voice\<close> the
  client's \<open>textToSpeech\<close>, as the settled promise it returns for an options object. The
  read of \<open>byteLength\<close> follows \<open>!audioResponse ||\<close>, so it is of a truthy value and
  cannot throw.
\<close>

definition textToSpeech_try :: "jsval \<Rightarrow> (jsval \<Rightarrow> jsval settled) \<Rightarrow> jsval \<Rightarrow> jsval + jsval" where
  "textToSpeech_try apiKey voice text =
     (if \<not> truthy text \<or> \<not> typeof_string text then Inl (JError (ascii ''Invalid text input''))
      else if \<not> truthy apiKey then Inl (JError (ascii ''ElevenLabs API key is not configured''))
      else
        (case voice (JObj ((ascii ''text'', text) # VOICE_CONFIG)) of
           Rejects e \<Rightarrow> Inl e
         | Resolves audioResponse \<Rightarrow>
             if \<not> truthy audioResponse \<or>
                (case getProp audioResponse (ascii ''byteLength'') of
                   None \<Rightarrow> False
                 | Some n \<Rightarrow> strict_eq_zero n)
             then Inl (JError (ascii ''No audio data received from ElevenLabs''))
             else Inr audioResponse))"

text \<open>
  The function: the lines it writes with \<open>console.error\<close>, and how its promise settles
  (\<open>Inl\<close> the value it throws, \<open>Inr\<close> the value it returns).
\<close>

definition textToSpeech ::
  "jsval \<Rightarrow> (jsval \<Rightarrow> jsval settled) \<Rightarrow> jsval \<Rightarrow> (jsstring \<times> thrown) list \<times> (jsval + jsval)" where
  "textToSpeech apiKey voice text =
     (case textToSpeech_try apiKey voice text of
        Inl error \<Rightarrow>
          ([(ascii ''Text to Speech Error:'', Value error)],
           Inl (JError (formatErrorResponse error)))
      | Inr audioResponse \<Rightarrow> ([], Inr audioResponse))"

section \<open>What every event preserves\<close>

text \<open>
  An Audio element \<open>a\<close> created by \<open>playAudio\<close> plays the object URL of the same index.
  While it is starting or has failed it has no handler; once it plays, its handler revokes
  its URL; and its URL occurs in the list of revocations once if it has ended, and not at
  all before.
\<close>

definition audio_inv :: "nat list \<Rightarrow> nat \<Rightarrow> audio \<Rightarrow> bool" where
  "audio_inv rs a au =
     (src au = a \<and>
      (case state au of
         Idle \<Rightarrow> False
       | Starting \<Rightarrow> onended au = None \<and> count_list rs a = 0
       | Playing \<Rightarrow> onended au = Some (RevokeObjectURL a) \<and> count_list rs a = 0
       | Ended \<Rightarrow> count_list rs a = 1
       | Failed \<Rightarrow> onended au = None \<and> count_list rs a = 0))"

text \<open>
  The running interval closes over the current \<open>isOpen\<close>; every pending timeout is the
  hiding of the notification after five seconds; URLs and elements are created together,
  and nothing is revoked that was not created.
\<close>

definition widget_inv :: "widget \<Rightarrow> bool" where
  "widget_inv w =
     (chatInterval w = (60000, isOpen w) \<and>
      (\<forall>t \<in> set (timeouts w). t = (5000, SetShowNotification False)) \<and>
      length (objectURLs w) = length (audios w) \<and>
      (\<forall>u \<in> set (revoked w). u < length (audios w)) \<and>
      (\<forall>a < length (audios w). audio_inv (revoked w) a (audios w ! a)))"

section \<open>Sample inputs\<close>

text \<open>
  A widget as \<open>AIChat\<close> is right after mounting (the initial values of its \<open>useState\<close>
  cells, the interval of the first effect running, nothing else yet), and a sample locale
  for \<open>toLocaleTimeString\<close>: the UTC time of day as \<open>HH:MM\<close>.
\<close>

definition mount :: widget where
  "mount =
     \<lparr>isOpen = False, messages = [], input = [], isLoading = False, showNotification = False,
      chatInterval = (60000, False), timeouts = [], fetched = [], console = [],
      objectURLs = [], revoked = [], audios = []\<rparr>"

definition two_digits :: "int \<Rightarrow> jsstring" where
  "two_digits n = [0x30 + of_int (n div 10), 0x30 + of_int (n mod 10)]"

definition hh_mm_utc :: "int \<Rightarrow> jsstring" where
  "hh_mm_utc t =
     (let m = (t div 60000) mod 1440 in two_digits (m div 60) @ ascii '':'' @ two_digits (m mod 60))"

definition noon :: runtime where
  "noon = \<lparr>Date_now = 43200000, new_Date = 43200000, toLocaleTimeString = hh_mm_utc\<rparr>"

definition reply_hi :: response where
  "reply_hi =
     \<lparr>status = 200, json = Resolves (JObj [(ascii ''response'', JStr (ascii ''hi''))]),
      arrayBuffer = Rejects (JError (ascii ''not audio''))\<rparr>"

definition http_500 :: response where
  "http_500 =
     \<lparr>status = 500, json = Resolves (JObj [(ascii ''error'', JStr (ascii ''down''))]),
      arrayBuffer = Rejects (JError (ascii ''not audio''))\<rparr>"

text \<open>A mocked endpoint: it settles every request the same way.\<close>

definition mock :: "response settled \<Rightarrow> request \<Rightarrow> response settled" where
  "mock outcome req = outcome"

definition reply_hi_error_null :: response where
  "reply_hi_error_null =
     \<lparr>status = 200,
      json = Resolves (JObj [(ascii ''response'', JStr (ascii ''hi'')), (ascii ''error'', JNull)]),
      arrayBuffer = Rejects (JError (ascii ''not audio''))\<rparr>"

definition reply_error_down :: response where
  "reply_error_down =
     \<lparr>status = 200, json = Resolves (JObj [(ascii ''error'', JStr (ascii ''down''))]),
      arrayBuffer = Rejects (JError (ascii ''not audio''))\<rparr>"

definition submit_event :: event where
  "submit_event = \<lparr>defaultPrevented = False\<rparr>"

text \<open>A mocked voice client: it settles every call the same way.\<close>

definition mock_voice :: "jsval settled \<Rightarrow> jsval \<Rightarrow> jsval settled" where
  "mock_voice outcome options = outcome"

definition speech_ok :: response where
  "speech_ok =
     \<lparr>status = 200, json = Rejects (JError (ascii ''not JSON'')),
      arrayBuffer = Resolves [0x49, 0x44, 0x33]\<rparr>"

section \<open>Properties\<close>

subsection \<open>formatErrorResponse\<close>

lemma instanceof_Error_iff: "instanceof_Error v \<longleftrightarrow> (\<exists>m. v = JError m)"
  by (cases v) simp_all

text \<open>
  C9. \<open>formatErrorResponse\<close> is a total function of its argument: on an instance of Error it
  returns the error's message, and on every other value (a string, null, undefined, a plain
  object among them) the fixed string "An unexpected error occurred".
\<close>

theorem formatErrorResponse_total:
  "(\<forall>m. formatErrorResponse (JError m) = m) \<and>
   (\<forall>v. \<not> instanceof_Error v \<longrightarrow>
        formatErrorResponse v = ascii ''An unexpected error occurred'') \<and>
   (\<forall>s. formatErrorResponse (JStr s) = ascii ''An unexpected error occurred'') \<and>
   formatErrorResponse JNull = ascii ''An unexpected error occurred'' \<and>
   formatErrorResponse JUndefined = ascii ''An unexpected error occurred'' \<and>
   (\<forall>ps. formatErrorResponse (JObj ps) = ascii ''An unexpected error occurred'')"
  by (simp add: formatErrorResponse_def)

theorem formatErrorResponse_total_witness:
  "formatErrorResponse (JError (ascii ''Invalid text input'')) = ascii ''Invalid text input'' \<and>
   \<not> instanceof_Error (JNum (Finite 42)) \<and>
   formatErrorResponse (JNum (Finite 42)) = ascii ''An unexpected error occurred'' \<and>
   formatErrorResponse (JStr (ascii ''boom'')) = ascii ''An unexpected error occurred''"
  using formatErrorResponse_total by simp

subsection \<open>handleSubmit\<close>

lemma handleSubmit_begin_guarded:
  "trim (input w) = [] \<or> isLoading w \<Longrightarrow>
   handleSubmit_begin rt e w = (e\<lparr>defaultPrevented := True\<rparr>, w, Returned)"
  by (auto simp: handleSubmit_begin_def)

lemma handleSubmit_begin_accepted:
  "trim (input w) \<noteq> [] \<Longrightarrow> \<not> isLoading w \<Longrightarrow>
   handleSubmit_begin rt e w =
     (e\<lparr>defaultPrevented := True\<rparr>,
      w\<lparr>messages := messages w @
           [\<lparr>id' = Number_toString (Date_now rt), text' = JStr (input w), isAI = False,
             timestamp = formatTime rt (new_Date rt)\<rparr>],
        input := [], isLoading := True,
        fetched := fetched w @
           [\<lparr>url = ascii ''/api/chat'', method' = ascii ''POST'',
             headers = [(ascii ''Content-Type'', ascii ''application/json'')],
             body = JObj [(ascii ''message'', JStr (input w))]\<rparr>]\<rparr>,
      Awaiting)"
  by (simp add: handleSubmit_begin_def fetch_def Let_def)

lemma handleSubmit_resume_thrown:
  "handleSubmit_try rt out w = Inl error \<Longrightarrow>
   handleSubmit_resume rt out w =
     Inr (w\<lparr>messages := messages w @
               [\<lparr>id' = Number_toString (Date_now rt), text' = JStr fallback_text, isAI = True,
                 timestamp = formatTime rt (new_Date rt)\<rparr>],
            isLoading := False,
            console := console w @ [(ascii ''Error getting AI response:'', error)]\<rparr>)"
  by (simp add: handleSubmit_resume_def handleSubmit_catch_def console_error_def Let_def)

lemma handleSubmit_resume_replied:
  "handleSubmit_try rt out w = Inr w1 \<Longrightarrow>
   handleSubmit_resume rt out w = Inr (w1\<lparr>isLoading := False\<rparr>)"
  by (simp add: handleSubmit_resume_def)

lemma handleSubmit_try_Inr_iff:
  "handleSubmit_try rt out w = Inr w1 \<longleftrightarrow>
   (\<exists>response data data_error data_response.
      out = Resolves response \<and> ok response \<and> json response = Resolves data \<and>
      getProp data (ascii ''error'') = Some data_error \<and> \<not> truthy data_error \<and>
      getProp data (ascii ''response'') = Some data_response \<and>
      w1 = w\<lparr>messages := messages w @
                [\<lparr>id' = Number_toString (Date_now rt + 1), text' = data_response, isAI = True,
                  timestamp = formatTime rt (new_Date rt)\<rparr>]\<rparr>)"
  by (auto simp: handleSubmit_try_def Let_def split: settled.splits option.splits)

lemma handleSubmit_resume_appends_one:
  "\<exists>w' assistant.
     handleSubmit_resume rt out w = Inr w' \<and>
     messages w' = messages w @ [assistant] \<and> isAI assistant \<and> \<not> isLoading w' \<and>
     (text' assistant = JStr fallback_text \<or>
      (\<exists>response data. out = Resolves response \<and> ok response \<and> json response = Resolves data \<and>
         getProp data (ascii ''response'') = Some (text' assistant)))"
proof (cases "handleSubmit_try rt out w")
  case (Inl error)
  then show ?thesis
    by (simp add: handleSubmit_resume_thrown)
next
  case (Inr w1)
  then show ?thesis
    using handleSubmit_try_Inr_iff [of rt out w w1]
    by (auto simp: handleSubmit_resume_replied)
qed

text \<open>Facts about the sample inputs.\<close>

lemma trim_hi: "trim (ascii ''hi'') = ascii ''hi''"
  by (simp add: trim_def ascii_def is_WhiteSpace_def is_LineTerminator_def)

lemma input_hi: "trim (input (mount\<lparr>input := ascii ''hi''\<rparr>)) \<noteq> []"
  by (simp add: trim_hi) (simp add: ascii_def)

lemma mount_idle: "\<not> isLoading (mount\<lparr>input := s\<rparr>)"
  by (simp add: mount_def)

lemma trim_padded: "trim (ascii '' hi  '') = ascii ''hi''"
  by (simp add: trim_def ascii_def is_WhiteSpace_def is_LineTerminator_def)

lemma input_padded: "trim (input (mount\<lparr>input := ascii '' hi  ''\<rparr>)) \<noteq> []"
  by (simp add: trim_padded) (simp add: ascii_def)

lemma ok_reply_hi: "ok reply_hi"
  by (simp add: ok_def reply_hi_def)

lemma not_ok_http_500: "\<not> ok http_500"
  by (simp add: ok_def http_500_def)

lemma prop_names_differ: "ascii ''error'' \<noteq> ascii ''response''"
  by (simp add: ascii_def)

text \<open>
  C3. When the pending input is empty or only white space after trimming, or a request is
  already in flight, \<open>handleSubmit\<close> does nothing but \<open>preventDefault\<close>: it returns
  at the guard with the widget as it was, so the conversation list (and its length), the
  list of requests given to \<open>fetch\<close> and every state cell are unchanged.
\<close>

theorem handleSubmit_guard_noop:
  assumes "trim (input w) = [] \<or> isLoading w"
  shows "\<exists>w'. handleSubmit_begin rt e w = (e\<lparr>defaultPrevented := True\<rparr>, w', Returned) \<and>
         handleSubmit rt rt' server e w = Inr (e\<lparr>defaultPrevented := True\<rparr>, w') \<and>
         length (messages w') = length (messages w) \<and> fetched w' = fetched w \<and> w' = w"
  using assms by (simp add: handleSubmit_def handleSubmit_begin_guarded)

theorem handleSubmit_guard_noop_witness:
  "trim (input (mount\<lparr>input := [0x20, 0x09, 0x3000]\<rparr>)) = [] \<and>
   handleSubmit noon noon (mock (Resolves reply_hi)) submit_event
       (mount\<lparr>input := [0x20, 0x09, 0x3000]\<rparr>) =
     Inr (submit_event\<lparr>defaultPrevented := True\<rparr>, mount\<lparr>input := [0x20, 0x09, 0x3000]\<rparr>) \<and>
   isLoading (mount\<lparr>input := ascii ''hi'', isLoading := True\<rparr>) \<and>
   handleSubmit noon noon (mock (Resolves reply_hi)) submit_event
       (mount\<lparr>input := ascii ''hi'', isLoading := True\<rparr>) =
     Inr (submit_event\<lparr>defaultPrevented := True\<rparr>, mount\<lparr>input := ascii ''hi'', isLoading := True\<rparr>)"
proof -
  have blank: "trim (input (mount\<lparr>input := [0x20, 0x09, 0x3000]\<rparr>)) = []"
    by (simp add: trim_def is_WhiteSpace_def is_LineTerminator_def)
  have busy: "isLoading (mount\<lparr>input := ascii ''hi'', isLoading := True\<rparr>)"
    by simp
  from blank busy
    handleSubmit_guard_noop [of "mount\<lparr>input := [0x20, 0x09, 0x3000]\<rparr>" noon submit_event noon
      "mock (Resolves reply_hi)"]
    handleSubmit_guard_noop [of "mount\<lparr>input := ascii ''hi'', isLoading := True\<rparr>" noon submit_event
      noon "mock (Resolves reply_hi)"]
  show ?thesis by auto
qed

text \<open>
  C1. When the input is not empty after trimming and no request is in flight (\<open>isLoading\<close>
  false before), \<open>handleSubmit\<close> appends one user message (\<open>isAI\<close> false) and suspends
  with \<open>isLoading\<close> set; whatever the outcome of the request (a reply, a non-success
  status, a rejected promise), its continuation appends one assistant message (\<open>isAI\<close>
  true: the reply's \<open>response\<close> or the fallback text) and leaves \<open>isLoading\<close> false, so
  the list ends as the old one followed by exactly these two messages.
\<close>

theorem handleSubmit_appends_user_then_assistant:
  assumes "trim (input w) \<noteq> []" and "\<not> isLoading w"
  shows "\<exists>e' w1 w2 user assistant.
     handleSubmit_begin rt e w = (e', w1, Awaiting) \<and>
     messages w1 = messages w @ [user] \<and> \<not> isAI user \<and> isLoading w1 \<and>
     handleSubmit_resume rt' out w1 = Inr w2 \<and>
     handleSubmit rt rt' (mock out) e w = Inr (e', w2) \<and>
     messages w2 = messages w @ [user, assistant] \<and> isAI assistant \<and> \<not> isLoading w2 \<and>
     (text' assistant = JStr fallback_text \<or>
      (\<exists>response data. out = Resolves response \<and> ok response \<and> json response = Resolves data \<and>
         getProp data (ascii ''response'') = Some (text' assistant)))"
proof -
  let ?user = "\<lparr>id' = Number_toString (Date_now rt), text' = JStr (input w), isAI = False,
                timestamp = formatTime rt (new_Date rt)\<rparr>"
  obtain w1 where
    bg: "handleSubmit_begin rt e w = (e\<lparr>defaultPrevented := True\<rparr>, w1, Awaiting)" and
    m1: "messages w1 = messages w @ [?user]" and l1: "isLoading w1"
    using handleSubmit_begin_accepted [OF assms, of rt e] by simp
  obtain w2 assistant where
    resume: "handleSubmit_resume rt' out w1 = Inr w2" and
    m2: "messages w2 = messages w1 @ [assistant]" and ai: "isAI assistant" and
    l2: "\<not> isLoading w2" and
    tx: "text' assistant = JStr fallback_text \<or>
      (\<exists>response data. out = Resolves response \<and> ok response \<and> json response = Resolves data \<and>
         getProp data (ascii ''response'') = Some (text' assistant))"
    using handleSubmit_resume_appends_one [of rt' out w1] by blast
  have whole: "handleSubmit rt rt' (mock out) e w = Inr (e\<lparr>defaultPrevented := True\<rparr>, w2)"
    by (simp add: handleSubmit_def bg resume mock_def)
  have "messages w2 = messages w @ [?user, assistant]"
    by (simp add: m1 m2)
  with bg m1 l1 resume whole ai l2 tx show ?thesis
    by (intro exI [of _ "e\<lparr>defaultPrevented := True\<rparr>"] exI [of _ w1] exI [of _ w2]
          exI [of _ ?user] exI [of _ assistant]) simp
qed

theorem handleSubmit_appends_user_then_assistant_witness:
  "trim (input (mount\<lparr>input := ascii ''hi''\<rparr>)) \<noteq> [] \<and>
   \<not> isLoading (mount\<lparr>input := ascii ''hi''\<rparr>) \<and>
   (\<exists>e' w1 w2 user assistant.
     handleSubmit_begin noon submit_event (mount\<lparr>input := ascii ''hi''\<rparr>) = (e', w1, Awaiting) \<and>
     messages w1 = messages (mount\<lparr>input := ascii ''hi''\<rparr>) @ [user] \<and> \<not> isAI user \<and>
     isLoading w1 \<and>
     handleSubmit_resume noon (Resolves http_500) w1 = Inr w2 \<and>
     handleSubmit noon noon (mock (Resolves http_500)) submit_event (mount\<lparr>input := ascii ''hi''\<rparr>) =
       Inr (e', w2) \<and>
     messages w2 = messages (mount\<lparr>input := ascii ''hi''\<rparr>) @ [user, assistant] \<and>
     isAI assistant \<and> \<not> isLoading w2 \<and>
     (text' assistant = JStr fallback_text \<or>
      (\<exists>response data. Resolves http_500 = Resolves response \<and> ok response \<and>
         json response = Resolves data \<and>
         getProp data (ascii ''response'') = Some (text' assistant)))) \<and>
   (\<exists>e' w1 w2 user assistant.
     handleSubmit_begin noon submit_event (mount\<lparr>input := ascii ''hi''\<rparr>) = (e', w1, Awaiting) \<and>
     messages w1 = messages (mount\<lparr>input := ascii ''hi''\<rparr>) @ [user] \<and> \<not> isAI user \<and>
     isLoading w1 \<and>
     handleSubmit_resume noon (Resolves reply_hi) w1 = Inr w2 \<and>
     handleSubmit noon noon (mock (Resolves reply_hi)) submit_event (mount\<lparr>input := ascii ''hi''\<rparr>) =
       Inr (e', w2) \<and>
     messages w2 = messages (mount\<lparr>input := ascii ''hi''\<rparr>) @ [user, assistant] \<and>
     isAI assistant \<and> \<not> isLoading w2 \<and>
     (text' assistant = JStr fallback_text \<or>
      (\<exists>response data. Resolves reply_hi = Resolves response \<and> ok response \<and>
         json response = Resolves data \<and>
         getProp data (ascii ''response'') = Some (text' assistant))))"
  using input_hi mount_idle [of "ascii ''hi''"]
    handleSubmit_appends_user_then_assistant [OF input_hi mount_idle, of noon submit_event noon
      "Resolves http_500"]
    handleSubmit_appends_user_then_assistant [OF input_hi mount_idle, of noon submit_event noon
      "Resolves reply_hi"]
  by blast

text \<open>
  C10. When the input passes the trim guard, the text is used as typed: the user message
  appended has \<open>text\<close> equal to the input string, white space at either end included, and
  the body of the POST to \<open>/api/chat\<close> has its \<open>message\<close> field equal to that same string;
  the trimmed form is used for the guard only.
\<close>

theorem handleSubmit_keeps_raw_input:
  assumes "trim (input w) \<noteq> []" and "\<not> isLoading w"
  shows "\<exists>e' w1 userMessage req.
     handleSubmit_begin rt e w = (e', w1, Awaiting) \<and>
     messages w1 = messages w @ [userMessage] \<and> text' userMessage = JStr (input w) \<and>
     fetched w1 = fetched w @ [req] \<and> url req = ascii ''/api/chat'' \<and>
     method' req = ascii ''POST'' \<and>
     getProp (body req) (ascii ''message'') = Some (JStr (input w))"
  using handleSubmit_begin_accepted [OF assms, of rt e] by simp

theorem handleSubmit_keeps_raw_input_witness:
  "trim (ascii '' hi  '') = ascii ''hi'' \<and> ascii '' hi  '' \<noteq> ascii ''hi'' \<and>
   (\<exists>e' w1 userMessage req.
     handleSubmit_begin noon submit_event (mount\<lparr>input := ascii '' hi  ''\<rparr>) = (e', w1, Awaiting) \<and>
     messages w1 = messages (mount\<lparr>input := ascii '' hi  ''\<rparr>) @ [userMessage] \<and>
     text' userMessage = JStr (ascii '' hi  '') \<and>
     fetched w1 = fetched (mount\<lparr>input := ascii '' hi  ''\<rparr>) @ [req] \<and>
     url req = ascii ''/api/chat'' \<and> method' req = ascii ''POST'' \<and>
     getProp (body req) (ascii ''message'') = Some (JStr (ascii '' hi  '')))"
proof -
  have "ascii '' hi  '' \<noteq> ascii ''hi''"
    by (simp add: ascii_def)
  with trim_padded
    handleSubmit_keeps_raw_input [OF input_padded mount_idle, of noon submit_event]
  show ?thesis by simp
qed

text \<open>
  C4. When the chat endpoint answers with a success status and a JSON body whose
  \<open>response\<close> field is the string "hi" and which has no \<open>error\<close> field, the continuation
  of \<open>handleSubmit\<close> appends one message whose text is exactly "hi" and whose \<open>isAI\<close> is
  true.
\<close>

theorem handleSubmit_reply_hi:
  assumes "ok response" and "json response = Resolves (JObj ps)"
    and "map_of ps (ascii ''error'') = None"
    and "map_of ps (ascii ''response'') = Some (JStr (ascii ''hi''))"
  shows "\<exists>w' aiMessage.
     handleSubmit_resume rt (Resolves response) w = Inr w' \<and>
     messages w' = messages w @ [aiMessage] \<and>
     text' aiMessage = JStr (ascii ''hi'') \<and> isAI aiMessage"
proof -
  have "handleSubmit_try rt (Resolves response) w =
      Inr (w\<lparr>messages := messages w @
                [\<lparr>id' = Number_toString (Date_now rt + 1), text' = JStr (ascii ''hi''),
                  isAI = True, timestamp = formatTime rt (new_Date rt)\<rparr>]\<rparr>)"
    using assms by (simp add: handleSubmit_try_def)
  then show ?thesis
    by (simp add: handleSubmit_resume_replied)
qed

theorem handleSubmit_reply_hi_witness:
  "ok reply_hi \<and> json reply_hi = Resolves (JObj [(ascii ''response'', JStr (ascii ''hi''))]) \<and>
   (\<exists>w' aiMessage.
     handleSubmit_resume noon (Resolves reply_hi) mount = Inr w' \<and>
     messages w' = messages mount @ [aiMessage] \<and>
     text' aiMessage = JStr (ascii ''hi'') \<and> isAI aiMessage)"
proof -
  have j: "json reply_hi = Resolves (JObj [(ascii ''response'', JStr (ascii ''hi''))])"
    by (simp add: reply_hi_def)
  have e: "map_of [(ascii ''response'', JStr (ascii ''hi''))] (ascii ''error'') = None"
    using prop_names_differ by simp
  have r: "map_of [(ascii ''response'', JStr (ascii ''hi''))] (ascii ''response'') =
      Some (JStr (ascii ''hi''))"
    by simp
  from ok_reply_hi j handleSubmit_reply_hi [OF ok_reply_hi j e r, of noon mount]
  show ?thesis by blast
qed

text \<open>
  C2, as stated, fails: the guard is \<open>if (data.error)\<close>, which tests the field's value and
  not its presence. A success response whose body is \<open>{response: "hi", error: null}\<close> has
  an \<open>error\<close> field, and the message appended carries the reply "hi", not the fallback.
\<close>

theorem handleSubmit_falsy_error_field_counterexample:
  "ok reply_hi_error_null \<and>
   json reply_hi_error_null =
     Resolves (JObj [(ascii ''response'', JStr (ascii ''hi'')), (ascii ''error'', JNull)]) \<and>
   handleSubmit_resume noon (Resolves reply_hi_error_null) mount =
     Inr (mount\<lparr>messages :=
           [\<lparr>id' = Number_toString 43200001, text' = JStr (ascii ''hi''), isAI = True,
             timestamp = hh_mm_utc 43200000\<rparr>]\<rparr>) \<and>
   JStr (ascii ''hi'') \<noteq> JStr fallback_text"
proof -
  have "handleSubmit_try noon (Resolves reply_hi_error_null) mount =
     Inr (mount\<lparr>messages :=
           [\<lparr>id' = Number_toString 43200001, text' = JStr (ascii ''hi''), isAI = True,
             timestamp = hh_mm_utc 43200000\<rparr>]\<rparr>)"
    using prop_names_differ
    by (simp add: handleSubmit_try_def reply_hi_error_null_def ok_def noon_def mount_def
        formatTime_def)
  moreover have "JStr (ascii ''hi'') \<noteq> JStr fallback_text"
    by (simp add: ascii_def fallback_text_def)
  ultimately show ?thesis
    by (simp add: handleSubmit_resume_replied) (simp add: reply_hi_error_null_def ok_def mount_def)
qed

text \<open>
  C2, amended. If the promise of \<open>fetch\<close> rejects, or the response has a non-success
  status, or it has a success status and a decoded body whose \<open>error\<close> field is truthy,
  then the continuation of \<open>handleSubmit\<close> appends exactly one message, an assistant
  message (\<open>isAI\<close> true) whose text is the fixed fallback string.
\<close>

theorem handleSubmit_failure_fallback:
  assumes "(\<exists>reason. outcome = Rejects reason) \<or>
           (\<exists>response. outcome = Resolves response \<and> \<not> ok response) \<or>
           (\<exists>response data data_error. outcome = Resolves response \<and> ok response \<and>
              json response = Resolves data \<and>
              getProp data (ascii ''error'') = Some data_error \<and> truthy data_error)"
  shows "\<exists>w' assistant.
     handleSubmit_resume rt outcome w = Inr w' \<and>
     messages w' = messages w @ [assistant] \<and>
     text' assistant = JStr fallback_text \<and> isAI assistant"
proof -
  from assms have "\<exists>error. handleSubmit_try rt outcome w = Inl error"
    by (auto simp: handleSubmit_try_def)
  then show ?thesis
    by (auto simp: handleSubmit_resume_thrown)
qed

theorem handleSubmit_failure_fallback_witness:
  "\<not> ok http_500 \<and>
   (\<exists>w' assistant.
     handleSubmit_resume noon (Resolves http_500) mount = Inr w' \<and>
     messages w' = messages mount @ [assistant] \<and>
     text' assistant = JStr fallback_text \<and> isAI assistant) \<and>
   (\<exists>w' assistant.
     handleSubmit_resume noon (Rejects (JError (ascii ''Failed to fetch''))) mount = Inr w' \<and>
     messages w' = messages mount @ [assistant] \<and>
     text' assistant = JStr fallback_text \<and> isAI assistant) \<and>
   ok reply_error_down \<and>
   getProp (JObj [(ascii ''error'', JStr (ascii ''down''))]) (ascii ''error'') =
     Some (JStr (ascii ''down'')) \<and>
   truthy (JStr (ascii ''down'')) \<and>
   (\<exists>w' assistant.
     handleSubmit_resume noon (Resolves reply_error_down) mount = Inr w' \<and>
     messages w' = messages mount @ [assistant] \<and>
     text' assistant = JStr fallback_text \<and> isAI assistant)"
proof -
  have ok_down: "ok reply_error_down"
    and json_down: "json reply_error_down = Resolves (JObj [(ascii ''error'', JStr (ascii ''down''))])"
    by (simp_all add: ok_def reply_error_down_def)
  have field: "getProp (JObj [(ascii ''error'', JStr (ascii ''down''))]) (ascii ''error'') =
      Some (JStr (ascii ''down''))"
    by simp
  have down: "truthy (JStr (ascii ''down''))"
    by (simp add: ascii_def)
  from not_ok_http_500 ok_down json_down field down
    handleSubmit_failure_fallback [of "Resolves http_500" noon mount]
    handleSubmit_failure_fallback [of "Rejects (JError (ascii ''Failed to fetch''))" noon mount]
    handleSubmit_failure_fallback [of "Resolves reply_error_down" noon mount]
  show ?thesis by blast
qed

subsection \<open>textToSpeech\<close>

lemma nonempty_string_iff:
  "truthy text \<and> typeof_string text \<longleftrightarrow> (\<exists>s. text = JStr s \<and> s \<noteq> [])"
  by (cases "text") auto

lemma truthy_getProp: "truthy v \<Longrightarrow> \<exists>x. getProp v k = Some x"
  by (cases v) auto

lemma byteLength_JBuffer:
  "getProp (JBuffer bs) (ascii ''byteLength'') = Some (JNum (Finite (of_nat (length bs))))"
  by simp

lemma textToSpeech_rethrows:
  "textToSpeech_try apiKey voice text = Inl error \<Longrightarrow>
   snd (textToSpeech apiKey voice text) = Inl (JError (formatErrorResponse error))"
  by (simp add: textToSpeech_def)

lemma textToSpeech_returns:
  "textToSpeech_try apiKey voice text = Inr audioResponse \<Longrightarrow>
   textToSpeech apiKey voice text = ([], Inr audioResponse)"
  by (simp add: textToSpeech_def)

lemma formatErrorResponse_JError: "formatErrorResponse (JError m) = m"
  by (simp add: formatErrorResponse_def)

text \<open>
  C5. \<open>textToSpeech\<close> throws "Invalid text input" when the text is not a non-empty
  string, "ElevenLabs API key is not configured" when the credential is missing or empty,
  and "No audio data received from ElevenLabs" when the provider returns nothing or a
  payload of zero bytes; an exception of the provider is thrown again as an Error with the
  message \<open>formatErrorResponse\<close> gives it. It throws in these cases and in no other,
  whatever it throws is an Error that carries a message string, and otherwise it returns
  the provider's payload.
\<close>

theorem textToSpeech_outcomes:
  fixes apiKey :: jsval and "text" :: jsval and voice :: "jsval \<Rightarrow> jsval settled"
  defines "options \<equiv> JObj ((ascii ''text'', text) # VOICE_CONFIG)"
  defines "invalid \<equiv> \<not> (\<exists>s. text = JStr s \<and> s \<noteq> [])"
  defines "unconfigured \<equiv> \<not> truthy apiKey"
  defines "no_audio \<equiv> \<lambda>a. \<not> truthy a \<or>
             (\<exists>n. getProp a (ascii ''byteLength'') = Some n \<and> strict_eq_zero n)"
  shows
    "(invalid \<longrightarrow>
        snd (textToSpeech apiKey voice text) = Inl (JError (ascii ''Invalid text input''))) \<and>
     (\<not> invalid \<and> unconfigured \<longrightarrow>
        snd (textToSpeech apiKey voice text) =
          Inl (JError (ascii ''ElevenLabs API key is not configured''))) \<and>
     (\<forall>a. \<not> invalid \<and> \<not> unconfigured \<and> voice options = Resolves a \<and> no_audio a \<longrightarrow>
        snd (textToSpeech apiKey voice text) =
          Inl (JError (ascii ''No audio data received from ElevenLabs''))) \<and>
     (\<forall>e. \<not> invalid \<and> \<not> unconfigured \<and> voice options = Rejects e \<longrightarrow>
        snd (textToSpeech apiKey voice text) = Inl (JError (formatErrorResponse e))) \<and>
     (\<forall>a. \<not> invalid \<and> \<not> unconfigured \<and> voice options = Resolves a \<and> \<not> no_audio a \<longrightarrow>
        snd (textToSpeech apiKey voice text) = Inr a) \<and>
     ((\<exists>thrown. snd (textToSpeech apiKey voice text) = Inl thrown) \<longleftrightarrow>
        invalid \<or> unconfigured \<or> (\<exists>e. voice options = Rejects e) \<or>
        (\<exists>a. voice options = Resolves a \<and> no_audio a)) \<and>
     (\<forall>thrown. snd (textToSpeech apiKey voice text) = Inl thrown \<longrightarrow>
        (\<exists>message. thrown = JError message))"
proof -
  have inv: "invalid \<longleftrightarrow> \<not> truthy text \<or> \<not> typeof_string text"
    unfolding invalid_def using nonempty_string_iff [of "text"] by blast
  have emp: "no_audio a \<longleftrightarrow> \<not> truthy a \<or>
      (case getProp a (ascii ''byteLength'') of None \<Rightarrow> False | Some n \<Rightarrow> strict_eq_zero n)" for a
    unfolding no_audio_def by (auto split: option.splits)
  have try_eq: "textToSpeech_try apiKey voice text =
     (if invalid then Inl (JError (ascii ''Invalid text input''))
      else if unconfigured then Inl (JError (ascii ''ElevenLabs API key is not configured''))
      else (case voice options of
              Rejects e \<Rightarrow> Inl e
            | Resolves a \<Rightarrow>
                if no_audio a then Inl (JError (ascii ''No audio data received from ElevenLabs''))
                else Inr a))"
    unfolding textToSpeech_try_def inv emp unconfigured_def options_def by simp
  have res: "snd (textToSpeech apiKey voice text) =
     (if invalid then Inl (JError (ascii ''Invalid text input''))
      else if unconfigured then Inl (JError (ascii ''ElevenLabs API key is not configured''))
      else (case voice options of
              Rejects e \<Rightarrow> Inl (JError (formatErrorResponse e))
            | Resolves a \<Rightarrow>
                if no_audio a then Inl (JError (ascii ''No audio data received from ElevenLabs''))
                else Inr a))"
    by (simp add: textToSpeech_def try_eq formatErrorResponse_JError split: settled.splits)
  show ?thesis
    unfolding res by (auto split: settled.splits)
qed

theorem textToSpeech_outcomes_witness:
  "(\<exists>s. JStr (ascii ''hello'') = JStr s \<and> s \<noteq> []) \<and> truthy (JStr (ascii ''key'')) \<and>
   truthy (JBuffer [0x49, 0x44, 0x33]) \<and>
   snd (textToSpeech (JStr (ascii ''key'')) (mock_voice (Resolves (JBuffer [0x49, 0x44, 0x33])))
         (JStr (ascii ''hello''))) = Inr (JBuffer [0x49, 0x44, 0x33]) \<and>
   snd (textToSpeech (JStr (ascii ''key'')) (mock_voice (Resolves (JBuffer [])))
         (JStr (ascii ''hello''))) = Inl (JError (ascii ''No audio data received from ElevenLabs'')) \<and>
   snd (textToSpeech (JStr (ascii ''key'')) (mock_voice (Rejects (JStr (ascii ''quota''))))
         (JStr (ascii ''hello''))) = Inl (JError (ascii ''An unexpected error occurred'')) \<and>
   snd (textToSpeech (JStr (ascii ''key'')) (mock_voice (Rejects (JError (ascii ''quota''))))
         (JStr (ascii ''hello''))) = Inl (JError (ascii ''quota'')) \<and>
   snd (textToSpeech JUndefined (mock_voice (Resolves (JBuffer [0x49, 0x44, 0x33])))
         (JStr (ascii ''hello''))) = Inl (JError (ascii ''ElevenLabs API key is not configured'')) \<and>
   snd (textToSpeech (JStr (ascii ''key'')) (mock_voice (Resolves (JBuffer [0x49, 0x44, 0x33])))
         (JStr [])) = Inl (JError (ascii ''Invalid text input''))"
proof -
  have hello: "\<exists>s. JStr (ascii ''hello'') = JStr s \<and> s \<noteq> []"
    by (simp add: ascii_def)
  have key: "truthy (JStr (ascii ''key''))"
    by (simp add: ascii_def)
  have full: "\<not> (\<exists>n. getProp (JBuffer [0x49, 0x44, 0x33]) (ascii ''byteLength'') = Some n \<and>
      strict_eq_zero n)"
    by (simp add: strict_eq_zero_def)
  have none: "\<exists>n. getProp (JBuffer []) (ascii ''byteLength'') = Some n \<and> strict_eq_zero n"
    by (simp add: strict_eq_zero_def)
  have quota: "formatErrorResponse (JStr (ascii ''quota'')) = ascii ''An unexpected error occurred''"
    by (simp add: formatErrorResponse_def)
  show ?thesis
    using hello key full none quota formatErrorResponse_JError [of "ascii ''quota''"]
      textToSpeech_outcomes [of "JStr (ascii ''hello'')" "JStr (ascii ''key'')"
        "mock_voice (Resolves (JBuffer [0x49, 0x44, 0x33]))"]
      textToSpeech_outcomes [of "JStr (ascii ''hello'')" "JStr (ascii ''key'')"
        "mock_voice (Resolves (JBuffer []))"]
      textToSpeech_outcomes [of "JStr (ascii ''hello'')" "JStr (ascii ''key'')"
        "mock_voice (Rejects (JStr (ascii ''quota'')))"]
      textToSpeech_outcomes [of "JStr (ascii ''hello'')" "JStr (ascii ''key'')"
        "mock_voice (Rejects (JError (ascii ''quota'')))"]
      textToSpeech_outcomes [of "JStr (ascii ''hello'')" JUndefined
        "mock_voice (Resolves (JBuffer [0x49, 0x44, 0x33]))"]
      textToSpeech_outcomes [of "JStr []" "JStr (ascii ''key'')"
        "mock_voice (Resolves (JBuffer [0x49, 0x44, 0x33]))"]
    by (simp add: mock_voice_def)
qed

subsection \<open>Invariants of the event loop\<close>

lemma widget_inv_mount: "widget_inv mount"
  by (simp add: widget_inv_def mount_def)

lemma widget_inv_frame:
  assumes "widget_inv w"
    and "chatInterval w' = chatInterval w" and "isOpen w' = isOpen w"
    and "timeouts w' = timeouts w" and "objectURLs w' = objectURLs w"
    and "revoked w' = revoked w" and "audios w' = audios w"
  shows "widget_inv w'"
  using assms by (simp add: widget_inv_def)

lemma widget_inv_Tick: "widget_inv w \<Longrightarrow> widget_inv (step Tick w)"
  by (auto simp: widget_inv_def interval_tick_def setTimeout_def)

lemma widget_inv_Timeout: "widget_inv w \<Longrightarrow> widget_inv (step (Timeout i) w)"
proof -
  assume inv: "widget_inv w"
  show ?thesis
  proof (cases "i < length (timeouts w)")
    case True
    then have "timeouts w ! i = (5000, SetShowNotification False)"
      using inv nth_mem [of i "timeouts w"] by (simp add: widget_inv_def)
    then have cb: "snd (timeouts w ! i) = SetShowNotification False"
      by simp
    have sub: "set (take i (timeouts w) @ drop (Suc i) (timeouts w)) \<subseteq> set (timeouts w)"
      using set_take_subset [of i "timeouts w"] set_drop_subset [of "Suc i" "timeouts w"] by auto
    show ?thesis
      using inv True sub by (auto simp: widget_inv_def timeout_fires_def cb)
  next
    case False
    with inv show ?thesis by (simp add: timeout_fires_def)
  qed
qed

lemma widget_inv_setIsOpen: "widget_inv w \<Longrightarrow> widget_inv (setIsOpen b w)"
  by (auto simp: widget_inv_def setIsOpen_def useEffect_isOpen_def)

lemma widget_inv_Change: "widget_inv w \<Longrightarrow> widget_inv (step (Change v) w)"
  by (simp add: widget_inv_def)

lemma widget_inv_Submit: "widget_inv w \<Longrightarrow> widget_inv (step (Submit rt) w)"
  by (rule widget_inv_frame [of w]) (simp_all add: handleSubmit_begin_def fetch_def Let_def)

lemma widget_inv_ChatSettled: "widget_inv w \<Longrightarrow> widget_inv (step (ChatSettled rt r) w)"
proof (cases "handleSubmit_try rt r w")
  case (Inl error)
  assume "widget_inv w"
  then show ?thesis
    by (rule widget_inv_frame) (simp_all add: handleSubmit_resume_thrown [OF Inl])
next
  case (Inr w1)
  assume "widget_inv w"
  then show ?thesis
    using Inr handleSubmit_try_Inr_iff [of rt r w w1]
    by (auto simp: handleSubmit_resume_replied [OF Inr] intro: widget_inv_frame [of w])
qed

lemma widget_inv_ClickPlay: "widget_inv w \<Longrightarrow> widget_inv (step (ClickPlay t) w)"
  by (rule widget_inv_frame [of w]) (simp_all add: playAudio_begin_def fetch_def)


lemma playAudio_try_started:
  assumes "ok response" and "arrayBuffer response = Resolves audioBuffer"
  shows "playAudio_try (Resolves response) w =
     Inr (w\<lparr>objectURLs := objectURLs w @ [\<lparr>parts = audioBuffer, type' = ascii ''audio/mpeg''\<rparr>],
            audios := audios w @
              [\<lparr>src = length (objectURLs w), onended = None, state = Starting\<rparr>]\<rparr>,
          Some (length (audios w), length (objectURLs w)))"
  using assms
  by (simp add: playAudio_try_def createObjectURL_def new_Audio_def play_def)

lemma playAudio_try_thrown_iff:
  "(\<exists>error. playAudio_try outcome w = Inl error) \<longleftrightarrow>
   (\<exists>reason. outcome = Rejects reason) \<or>
   (\<exists>response. outcome = Resolves response \<and>
      (\<not> ok response \<or> (\<exists>reason. arrayBuffer response = Rejects reason)))"
  by (auto simp: playAudio_try_def createObjectURL_def new_Audio_def Let_def
      split: settled.splits)

lemma playAudio_response_caught:
  "playAudio_try outcome w = Inl error \<Longrightarrow>
   playAudio_response outcome w =
     Inr (w\<lparr>console := console w @ [(ascii ''Error playing audio:'', error)]\<rparr>, None)"
  by (simp add: playAudio_response_def console_error_def)

lemma playAudio_response_started:
  assumes "ok response" and "arrayBuffer response = Resolves audioBuffer"
  shows "playAudio_response (Resolves response) w =
     Inr (w\<lparr>objectURLs := objectURLs w @ [\<lparr>parts = audioBuffer, type' = ascii ''audio/mpeg''\<rparr>],
            audios := audios w @
              [\<lparr>src = length (objectURLs w), onended = None, state = Starting\<rparr>]\<rparr>,
          Some (length (audios w), length (objectURLs w)))"
  by (simp add: playAudio_response_def playAudio_try_started [OF assms])

lemma count_list_fresh: "\<forall>u \<in> set rs. u < (n::nat) \<Longrightarrow> count_list rs n = 0"
  by (induction rs) auto

lemma widget_inv_started:
  assumes "widget_inv w"
  shows "widget_inv
     (w\<lparr>objectURLs := objectURLs w @ [b],
        audios := audios w @ [\<lparr>src = length (objectURLs w), onended = None, state = Starting\<rparr>]\<rparr>)"
proof -
  have fresh: "count_list (revoked w) (length (audios w)) = 0"
    using assms by (simp add: widget_inv_def count_list_fresh)
  show ?thesis
    using assms fresh
    by (auto simp: widget_inv_def audio_inv_def nth_append less_Suc_eq)
qed

lemma playAudio_try_cases:
  "(\<exists>error. playAudio_try r w = Inl error) \<or>
   (\<exists>response audioBuffer.
      r = Resolves response \<and> ok response \<and> arrayBuffer response = Resolves audioBuffer)"
  by (cases r) (auto simp: playAudio_try_def split: settled.splits)

lemma widget_inv_SpeechSettled: "widget_inv w \<Longrightarrow> widget_inv (step (SpeechSettled r) w)"
proof -
  assume inv: "widget_inv w"
  from playAudio_try_cases [of r w] show ?thesis
  proof
    assume "\<exists>error. playAudio_try r w = Inl error"
    then obtain error where "playAudio_try r w = Inl error" by blast
    then show ?thesis
      using inv by (auto simp: playAudio_response_caught intro: widget_inv_frame [of w])
  next
    assume "\<exists>response audioBuffer.
      r = Resolves response \<and> ok response \<and> arrayBuffer response = Resolves audioBuffer"
    then show ?thesis
      using inv by (auto simp: playAudio_response_started widget_inv_started)
  qed
qed

lemma step_PlaySettled_resolved:
  assumes "a < length (audios w)" and "state (audios w ! a) = Starting"
  shows "step (PlaySettled a (Resolves u)) w =
     w\<lparr>audios := (audios w)[a := (audios w ! a)
          \<lparr>state := Playing, onended := Some (RevokeObjectURL (src (audios w ! a)))\<rparr>]\<rparr>"
  using assms
  by (simp add: playAudio_played_def media_play_settled_def set_onended_def)

lemma step_PlaySettled_rejected:
  assumes "a < length (audios w)" and "state (audios w ! a) = Starting"
  shows "step (PlaySettled a (Rejects e)) w =
     w\<lparr>audios := (audios w)[a := (audios w ! a)\<lparr>state := Failed\<rparr>],
       console := console w @ [(ascii ''Error playing audio:'', Value e)]\<rparr>"
  using assms
  by (simp add: playAudio_played_def media_play_settled_def console_error_def)

lemma step_PlaySettled_idle:
  "\<not> (a < length (audios w) \<and> state (audios w ! a) = Starting) \<Longrightarrow>
   step (PlaySettled a played) w = w"
  by auto

lemma widget_inv_update_audio:
  assumes inv: "widget_inv w" and a: "a < length (audios w)"
    and au: "audio_inv (revoked w) a au"
  shows "widget_inv (w\<lparr>audios := (audios w)[a := au]\<rparr>)"
proof -
  have "audio_inv (revoked w) b ((audios w)[a := au] ! b)" if "b < length (audios w)" for b
  proof (cases "b = a")
    case True
    with a au show ?thesis by simp
  next
    case False
    with inv that show ?thesis by (simp add: widget_inv_def)
  qed
  with inv show ?thesis
    by (simp add: widget_inv_def)
qed

lemma widget_inv_PlaySettled: "widget_inv w \<Longrightarrow> widget_inv (step (PlaySettled a played) w)"
proof -
  assume inv: "widget_inv w"
  show ?thesis
  proof (cases "a < length (audios w) \<and> state (audios w ! a) = Starting")
    case False
    with inv show ?thesis by (simp add: step_PlaySettled_idle del: step.simps)
  next
    case True
    then have a: "a < length (audios w)" and st: "state (audios w ! a) = Starting"
      by simp_all
    from inv a have ai: "audio_inv (revoked w) a (audios w ! a)"
      by (simp add: widget_inv_def)
    show ?thesis
    proof (cases played)
      case (Resolves u)
      have "audio_inv (revoked w) a ((audios w ! a)
          \<lparr>state := Playing, onended := Some (RevokeObjectURL (src (audios w ! a)))\<rparr>)"
        using ai st by (simp add: audio_inv_def)
      then show ?thesis
        unfolding Resolves step_PlaySettled_resolved [OF a st]
        by (rule widget_inv_update_audio [OF inv a])
    next
      case (Rejects e)
      have "audio_inv (revoked w) a ((audios w ! a)\<lparr>state := Failed\<rparr>)"
        using ai st by (simp add: audio_inv_def)
      then have "widget_inv (w\<lparr>audios := (audios w)[a := (audios w ! a)\<lparr>state := Failed\<rparr>]\<rparr>)"
        by (rule widget_inv_update_audio [OF inv a])
      then show ?thesis
        unfolding Rejects step_PlaySettled_rejected [OF a st]
        by (rule widget_inv_frame) simp_all
    qed
  qed
qed

lemma step_MediaEnded_playing:
  assumes "a < length (audios w)" and "state (audios w ! a) = Playing"
    and "onended (audios w ! a) = Some (RevokeObjectURL u)"
  shows "step (MediaEnded a) w =
     w\<lparr>audios := (audios w)[a := (audios w ! a)\<lparr>state := Ended\<rparr>],
       revoked := revoked w @ [u]\<rparr>"
  using assms by (simp add: media_ended_def revokeObjectURL_def)

lemma step_MediaEnded_idle:
  "\<not> (a < length (audios w) \<and> state (audios w ! a) = Playing) \<Longrightarrow>
   step (MediaEnded a) w = w"
  by (auto simp: media_ended_def)

lemma audio_inv_other_revoked:
  "b \<noteq> a \<Longrightarrow> audio_inv (rs @ [a]) b au = audio_inv rs b au"
  by (simp add: audio_inv_def split: playback.splits)

lemma widget_inv_MediaEnded: "widget_inv w \<Longrightarrow> widget_inv (step (MediaEnded a) w)"
proof -
  assume inv: "widget_inv w"
  show ?thesis
  proof (cases "a < length (audios w) \<and> state (audios w ! a) = Playing")
    case False
    with inv show ?thesis by (simp add: step_MediaEnded_idle del: step.simps)
  next
    case True
    then have a: "a < length (audios w)" and st: "state (audios w ! a) = Playing"
      by simp_all
    from inv a have ai: "audio_inv (revoked w) a (audios w ! a)"
      by (simp add: widget_inv_def)
    with st have h: "onended (audios w ! a) = Some (RevokeObjectURL a)"
      and c: "count_list (revoked w) a = 0" and s: "src (audios w ! a) = a"
      by (simp_all add: audio_inv_def)
    let ?as = "(audios w)[a := (audios w ! a)\<lparr>state := Ended\<rparr>]"
    have each: "audio_inv (revoked w @ [a]) b (?as ! b)" if "b < length (audios w)" for b
    proof (cases "b = a")
      case True
      with a c s show ?thesis by (simp add: audio_inv_def)
    next
      case False
      with inv that show ?thesis
        by (simp add: audio_inv_other_revoked widget_inv_def)
    qed
    have "\<forall>u \<in> set (revoked w @ [a]). u < length (audios w)"
      using inv a by (simp add: widget_inv_def)
    with inv each show ?thesis
      unfolding step_MediaEnded_playing [OF a st h]
      by (simp add: widget_inv_def)
  qed
qed

lemma widget_inv_step: "widget_inv w \<Longrightarrow> widget_inv (step e w)"
proof (cases e)
  case Tick
  assume "widget_inv w" then show ?thesis unfolding Tick by (rule widget_inv_Tick)
next
  case (Timeout i)
  assume "widget_inv w" then show ?thesis unfolding Timeout by (rule widget_inv_Timeout)
next
  case ClickToggle
  assume "widget_inv w" then show ?thesis unfolding ClickToggle by (simp add: widget_inv_setIsOpen)
next
  case ClickClose
  assume "widget_inv w" then show ?thesis unfolding ClickClose by (simp add: widget_inv_setIsOpen)
next
  case (Change v)
  assume "widget_inv w" then show ?thesis unfolding Change by (rule widget_inv_Change)
next
  case (Submit rt)
  assume "widget_inv w" then show ?thesis unfolding Submit by (rule widget_inv_Submit)
next
  case (ChatSettled rt r)
  assume "widget_inv w" then show ?thesis unfolding ChatSettled by (rule widget_inv_ChatSettled)
next
  case (ClickPlay t)
  assume "widget_inv w" then show ?thesis unfolding ClickPlay by (rule widget_inv_ClickPlay)
next
  case (SpeechSettled r)
  assume "widget_inv w" then show ?thesis unfolding SpeechSettled by (rule widget_inv_SpeechSettled)
next
  case (PlaySettled a played)
  assume "widget_inv w" then show ?thesis unfolding PlaySettled by (rule widget_inv_PlaySettled)
next
  case (MediaEnded a)
  assume "widget_inv w" then show ?thesis unfolding MediaEnded by (rule widget_inv_MediaEnded)
qed

lemma widget_inv_run: "widget_inv w \<Longrightarrow> widget_inv (run es w)"
  unfolding run_def by (induction es arbitrary: w) (simp_all add: widget_inv_step)

lemma widget_inv_reachable: "widget_inv (run es mount)"
  by (rule widget_inv_run [OF widget_inv_mount])

subsection \<open>playAudio and the notification\<close>

text \<open>
  C6. When the speech endpoint answers \<open>playAudio\<close> with a non-success status, or the
  promise of \<open>fetch\<close> rejects, the call ends normally (no exception leaves it): the
  error is caught and written to the console, the conversation list is unchanged (so no
  assistant message is added), and nothing else changes but the list of requests issued.
\<close>

theorem playAudio_failure_swallowed:
  assumes "(\<exists>reason. outcome = Rejects reason) \<or>
           (\<exists>response. outcome = Resolves response \<and> \<not> ok response)"
  shows "\<exists>w' error.
     playAudio text (mock outcome) played w = Inr w' \<and>
     messages w' = messages w \<and>
     w' = (playAudio_begin text w)\<lparr>console :=
            console w @ [(ascii ''Error playing audio:'', error)]\<rparr> \<and>
     fetched w' = fetched w @
       [\<lparr>url = ascii ''/api/speech'', method' = ascii ''POST'',
         headers = [(ascii ''Content-Type'', ascii ''application/json'')],
         body = JObj [(ascii ''text'', text)]\<rparr>]"
proof -
  from assms have "\<exists>error. playAudio_try outcome (playAudio_begin text w) = Inl error"
    unfolding playAudio_try_thrown_iff by blast
  then obtain error where "playAudio_try outcome (playAudio_begin text w) = Inl error"
    by blast
  then have "playAudio text (mock outcome) played w =
      Inr ((playAudio_begin text w)\<lparr>console :=
            console (playAudio_begin text w) @ [(ascii ''Error playing audio:'', error)]\<rparr>)"
    by (simp add: playAudio_def Let_def mock_def playAudio_response_caught)
  then show ?thesis
    by (intro exI [of _ "(playAudio_begin text w)\<lparr>console :=
            console w @ [(ascii ''Error playing audio:'', error)]\<rparr>"] exI [of _ error])
      (simp add: playAudio_begin_def fetch_def)
qed

theorem playAudio_failure_swallowed_witness:
  "\<not> ok http_500 \<and>
   (\<exists>w' error.
     playAudio (JStr (ascii ''hi'')) (mock (Resolves http_500)) (Resolves ()) mount = Inr w' \<and>
     messages w' = messages mount \<and>
     w' = (playAudio_begin (JStr (ascii ''hi'')) mount)\<lparr>console :=
            console mount @ [(ascii ''Error playing audio:'', error)]\<rparr> \<and>
     fetched w' = fetched mount @
       [\<lparr>url = ascii ''/api/speech'', method' = ascii ''POST'',
         headers = [(ascii ''Content-Type'', ascii ''application/json'')],
         body = JObj [(ascii ''text'', JStr (ascii ''hi''))]\<rparr>])"
  using not_ok_http_500
    playAudio_failure_swallowed [of "Resolves http_500" "JStr (ascii ''hi'')" "Resolves ()" mount]
  by blast

text \<open>
  C8. In every state a mounted widget can reach: the notification indicator is visible
  only while the widget is collapsed; a tick of the interval while collapsed shows the
  indicator and schedules, after 5000 ms, a timeout that hides it, and every pending
  timeout is such a hiding; clicking the toggle expands the widget, and while it is
  expanded a tick changes nothing and the indicator is not visible, until the close
  button collapses it again.
\<close>

theorem notification_only_while_collapsed:
  fixes es :: "action list"
  defines "w \<equiv> run es mount"
  shows "(notification_visible w \<longrightarrow> \<not> isOpen w) \<and>
     (\<not> isOpen w \<longrightarrow>
        showNotification (step Tick w) \<and> notification_visible (step Tick w) \<and>
        timeouts (step Tick w) = timeouts w @ [(5000, SetShowNotification False)] \<and>
        \<not> notification_visible (step (Timeout (length (timeouts w))) (step Tick w))) \<and>
     (\<forall>t \<in> set (timeouts w). t = (5000, SetShowNotification False)) \<and>
     (\<not> isOpen w \<longrightarrow> isOpen (step ClickToggle w)) \<and>
     (isOpen w \<longrightarrow> step Tick w = w \<and> \<not> notification_visible w) \<and>
     \<not> isOpen (step ClickClose w)"
proof -
  have inv: "widget_inv w"
    unfolding w_def by (rule widget_inv_reachable)
  then have closure: "snd (chatInterval w) = isOpen w"
    by (simp add: widget_inv_def)
  have visible: "notification_visible w \<longrightarrow> \<not> isOpen w"
    by (simp add: notification_visible_def chat_toggle_def)
  have tick: "showNotification (step Tick w) \<and> notification_visible (step Tick w) \<and>
        timeouts (step Tick w) = timeouts w @ [(5000, SetShowNotification False)] \<and>
        \<not> notification_visible (step (Timeout (length (timeouts w))) (step Tick w))"
    if "\<not> isOpen w"
    using that closure
    by (simp add: interval_tick_def setTimeout_def timeout_fires_def notification_visible_def
        chat_toggle_def)
  have pending: "\<forall>t \<in> set (timeouts w). t = (5000, SetShowNotification False)"
    using inv by (simp add: widget_inv_def)
  have quiet: "step Tick w = w \<and> \<not> notification_visible w" if "isOpen w"
    using that closure by (simp add: interval_tick_def notification_visible_def chat_toggle_def)
  have toggle: "\<not> isOpen w \<longrightarrow> isOpen (step ClickToggle w)"
    by (simp add: setIsOpen_def useEffect_isOpen_def)
  have close: "\<not> isOpen (step ClickClose w)"
    by (simp add: setIsOpen_def useEffect_isOpen_def)
  from visible tick pending quiet toggle close show ?thesis
    by blast
qed

theorem notification_only_while_collapsed_witness:
  "notification_visible (run [Tick] mount) \<and> \<not> isOpen (run [Tick] mount) \<and>
   timeouts (step Tick (run [] mount)) = timeouts (run [] mount) @ [(5000, SetShowNotification False)] \<and>
   \<not> notification_visible (step (Timeout (length (timeouts (run [] mount)))) (step Tick (run [] mount))) \<and>
   isOpen (run [Tick, ClickToggle] mount) \<and>
   showNotification (run [Tick, ClickToggle] mount) \<and>
   \<not> notification_visible (run [Tick, ClickToggle] mount) \<and>
   step Tick (run [Tick, ClickToggle] mount) = run [Tick, ClickToggle] mount"
proof -
  have shut: "\<not> isOpen (run [] mount)" "\<not> isOpen (run [Tick] mount)"
    by (simp_all add: run_def mount_def interval_tick_def setTimeout_def)
  have shown: "notification_visible (run [Tick] mount)"
    by (simp add: run_def mount_def interval_tick_def setTimeout_def notification_visible_def
        chat_toggle_def)
  have opened: "isOpen (run [Tick, ClickToggle] mount)"
    "showNotification (run [Tick, ClickToggle] mount)"
    by (simp_all add: run_def mount_def interval_tick_def setTimeout_def setIsOpen_def
        useEffect_isOpen_def)
  from shut shown opened
    notification_only_while_collapsed [of "[]"]
    notification_only_while_collapsed [of "[Tick]"]
    notification_only_while_collapsed [of "[Tick, ClickToggle]"]
  show ?thesis by blast
qed

lemma audio_inv_count:
  "audio_inv rs a au \<Longrightarrow>
   src au = a \<and> count_list rs a = (if state au = Ended then 1 else 0)"
  by (auto simp: audio_inv_def split: playback.splits)

text \<open>
  C7. In any state a mounted widget can reach, a success response to \<open>playAudio\<close> has
  its bytes wrapped in a blob of type \<open>audio/mpeg\<close> under a fresh object URL, and an
  Audio element on that URL is started at once; the URL is not revoked then, nor when
  \<open>play()\<close> resolves and the \<open>onended\<close> handler is attached; when the playback ends
  the URL is revoked, once, and the element, having ended, fires nothing more. Over every run of
  events: each element plays the URL created with it, and that URL has been revoked exactly
  once if the element's playback has ended and not at all otherwise.
\<close>

theorem playAudio_releases_url_once:
  fixes es :: "action list"
  defines "w \<equiv> run es mount"
  assumes "ok response" and "arrayBuffer response = Resolves audioBuffer"
  shows "(\<exists>w2 w3 a u.
       playAudio_response (Resolves response) w = Inr (w2, Some (a, u)) \<and>
       u = length (objectURLs w) \<and> a = length (audios w) \<and>
       objectURLs w2 = objectURLs w @ [\<lparr>parts = audioBuffer, type' = ascii ''audio/mpeg''\<rparr>] \<and>
       audios w2 = audios w @ [\<lparr>src = u, onended = None, state = Starting\<rparr>] \<and>
       count_list (revoked w2) u = 0 \<and>
       w3 = step (PlaySettled a (Resolves ())) w2 \<and>
       audios w3 = audios w @ [\<lparr>src = u, onended = Some (RevokeObjectURL u), state = Playing\<rparr>] \<and>
       count_list (revoked w3) u = 0 \<and>
       revoked (step (MediaEnded a) w3) = revoked w3 @ [u] \<and>
       count_list (revoked (step (MediaEnded a) w3)) u = 1 \<and>
       step (MediaEnded a) (step (MediaEnded a) w3) = step (MediaEnded a) w3) \<and>
     (\<forall>es' a. a < length (audios (run es' mount)) \<longrightarrow>
        src (audios (run es' mount) ! a) = a \<and> a < length (objectURLs (run es' mount)) \<and>
        count_list (revoked (run es' mount)) a =
          (if state (audios (run es' mount) ! a) = Ended then 1 else 0))"
proof -
  have inv: "widget_inv w"
    unfolding w_def by (rule widget_inv_reachable)
  define a where "a = length (audios w)"
  define u where "u = length (objectURLs w)"
  define w2 where "w2 =
     w\<lparr>objectURLs := objectURLs w @ [\<lparr>parts = audioBuffer, type' = ascii ''audio/mpeg''\<rparr>],
       audios := audios w @ [\<lparr>src = u, onended = None, state = Starting\<rparr>]\<rparr>"
  define w3 where "w3 = step (PlaySettled a (Resolves ())) w2"
  have ua: "u = a"
    using inv by (simp add: widget_inv_def a_def u_def)
  have started: "playAudio_response (Resolves response) w = Inr (w2, Some (a, u))"
    unfolding w2_def a_def u_def by (rule playAudio_response_started [OF assms(2,3)])
  have urls2: "objectURLs w2 =
      objectURLs w @ [\<lparr>parts = audioBuffer, type' = ascii ''audio/mpeg''\<rparr>]"
    and audios2: "audios w2 = audios w @ [\<lparr>src = u, onended = None, state = Starting\<rparr>]"
    and revoked2: "revoked w2 = revoked w"
    by (simp_all add: w2_def)
  have fresh: "count_list (revoked w) u = 0"
    using inv unfolding ua a_def by (simp add: widget_inv_def count_list_fresh)
  have a2: "a < length (audios w2)" and st2: "state (audios w2 ! a) = Starting"
    and src2: "src (audios w2 ! a) = u"
    by (simp_all add: audios2 a_def)
  have w3_eq: "w3 = w2\<lparr>audios := audios w @
      [\<lparr>src = u, onended = Some (RevokeObjectURL u), state = Playing\<rparr>]\<rparr>"
    unfolding w3_def step_PlaySettled_resolved [OF a2 st2]
    by (simp add: audios2 a_def)
  have a3: "a < length (audios w3)" and st3: "state (audios w3 ! a) = Playing"
    and h3: "onended (audios w3 ! a) = Some (RevokeObjectURL u)"
    and revoked3: "revoked w3 = revoked w"
    by (simp_all add: w3_eq a_def revoked2)
  have ended: "step (MediaEnded a) w3 =
      w3\<lparr>audios := (audios w3)[a := (audios w3 ! a)\<lparr>state := Ended\<rparr>],
         revoked := revoked w3 @ [u]\<rparr>"
    by (rule step_MediaEnded_playing [OF a3 st3 h3])
  have once: "count_list (revoked (step (MediaEnded a) w3)) u = 1"
    by (simp add: ended revoked3 fresh del: step.simps)
  have "state (audios (step (MediaEnded a) w3) ! a) = Ended"
    using a3 by (simp add: ended del: step.simps)
  then have again: "step (MediaEnded a) (step (MediaEnded a) w3) = step (MediaEnded a) w3"
    by (simp add: step_MediaEnded_idle del: step.simps)
  have count2: "count_list (revoked w2) u = 0"
    by (simp add: revoked2 fresh)
  have audios3: "audios w3 =
      audios w @ [\<lparr>src = u, onended = Some (RevokeObjectURL u), state = Playing\<rparr>]"
    by (simp add: w3_eq)
  have count3: "count_list (revoked w3) u = 0"
    by (simp add: revoked3 fresh)
  have released: "revoked (step (MediaEnded a) w3) = revoked w3 @ [u]"
    by (simp add: ended del: step.simps)
  have call: "\<exists>w2 w3 a u.
       playAudio_response (Resolves response) w = Inr (w2, Some (a, u)) \<and>
       u = length (objectURLs w) \<and> a = length (audios w) \<and>
       objectURLs w2 = objectURLs w @ [\<lparr>parts = audioBuffer, type' = ascii ''audio/mpeg''\<rparr>] \<and>
       audios w2 = audios w @ [\<lparr>src = u, onended = None, state = Starting\<rparr>] \<and>
       count_list (revoked w2) u = 0 \<and>
       w3 = step (PlaySettled a (Resolves ())) w2 \<and>
       audios w3 = audios w @ [\<lparr>src = u, onended = Some (RevokeObjectURL u), state = Playing\<rparr>] \<and>
       count_list (revoked w3) u = 0 \<and>
       revoked (step (MediaEnded a) w3) = revoked w3 @ [u] \<and>
       count_list (revoked (step (MediaEnded a) w3)) u = 1 \<and>
       step (MediaEnded a) (step (MediaEnded a) w3) = step (MediaEnded a) w3"
    using started u_def a_def urls2 audios2 count2 w3_def audios3 count3 released once again
    by blast
  have everywhere: "src (audios (run es' mount) ! b) = b \<and>
      b < length (objectURLs (run es' mount)) \<and>
      count_list (revoked (run es' mount)) b =
        (if state (audios (run es' mount) ! b) = Ended then 1 else 0)"
    if "b < length (audios (run es' mount))" for es' b
  proof -
    have i: "widget_inv (run es' mount)"
      by (rule widget_inv_reachable)
    with that have "audio_inv (revoked (run es' mount)) b (audios (run es' mount) ! b)"
      and "b < length (objectURLs (run es' mount))"
      by (simp_all add: widget_inv_def)
    then show ?thesis
      using audio_inv_count by blast
  qed
  from call everywhere show ?thesis
    by blast
qed


lemma ok_speech_ok: "ok speech_ok"
  by (simp add: ok_def speech_ok_def)

lemma arrayBuffer_speech_ok: "arrayBuffer speech_ok = Resolves [0x49, 0x44, 0x33]"
  by (simp add: speech_ok_def)

lemma run_play_to_end:
  "run [ClickPlay (JStr (ascii ''hi'')), SpeechSettled (Resolves speech_ok),
        PlaySettled 0 (Resolves ()), MediaEnded 0, MediaEnded 0] mount =
   mount\<lparr>fetched :=
           [\<lparr>url = ascii ''/api/speech'', method' = ascii ''POST'',
             headers = [(ascii ''Content-Type'', ascii ''application/json'')],
             body = JObj [(ascii ''text'', JStr (ascii ''hi''))]\<rparr>],
         objectURLs := [\<lparr>parts = [0x49, 0x44, 0x33], type' = ascii ''audio/mpeg''\<rparr>],
         audios := [\<lparr>src = 0, onended = Some (RevokeObjectURL 0), state = Ended\<rparr>],
         revoked := [0]\<rparr>"
  by (simp add: run_def mount_def playAudio_begin_def fetch_def
      playAudio_response_started [OF ok_speech_ok arrayBuffer_speech_ok]
      playAudio_played_def media_play_settled_def set_onended_def media_ended_def
      revokeObjectURL_def)

theorem playAudio_releases_url_once_witness:
  "ok speech_ok \<and> arrayBuffer speech_ok = Resolves [0x49, 0x44, 0x33] \<and>
   (\<exists>w2 w3 a u.
       playAudio_response (Resolves speech_ok) (run [ClickPlay (JStr (ascii ''hi''))] mount) =
         Inr (w2, Some (a, u)) \<and>
       u = length (objectURLs (run [ClickPlay (JStr (ascii ''hi''))] mount)) \<and>
       a = length (audios (run [ClickPlay (JStr (ascii ''hi''))] mount)) \<and>
       objectURLs w2 = objectURLs (run [ClickPlay (JStr (ascii ''hi''))] mount) @
         [\<lparr>parts = [0x49, 0x44, 0x33], type' = ascii ''audio/mpeg''\<rparr>] \<and>
       audios w2 = audios (run [ClickPlay (JStr (ascii ''hi''))] mount) @
         [\<lparr>src = u, onended = None, state = Starting\<rparr>] \<and>
       count_list (revoked w2) u = 0 \<and>
       w3 = step (PlaySettled a (Resolves ())) w2 \<and>
       audios w3 = audios (run [ClickPlay (JStr (ascii ''hi''))] mount) @
         [\<lparr>src = u, onended = Some (RevokeObjectURL u), state = Playing\<rparr>] \<and>
       count_list (revoked w3) u = 0 \<and>
       revoked (step (MediaEnded a) w3) = revoked w3 @ [u] \<and>
       count_list (revoked (step (MediaEnded a) w3)) u = 1 \<and>
       step (MediaEnded a) (step (MediaEnded a) w3) = step (MediaEnded a) w3) \<and>
   revoked (run [ClickPlay (JStr (ascii ''hi'')), SpeechSettled (Resolves speech_ok),
        PlaySettled 0 (Resolves ()), MediaEnded 0, MediaEnded 0] mount) = [0]"
proof -
  have "revoked (run [ClickPlay (JStr (ascii ''hi'')), SpeechSettled (Resolves speech_ok),
        PlaySettled 0 (Resolves ()), MediaEnded 0, MediaEnded 0] mount) = [0]"
    by (simp add: run_play_to_end)
  with ok_speech_ok arrayBuffer_speech_ok
    playAudio_releases_url_once [OF ok_speech_ok arrayBuffer_speech_ok,
      of "[ClickPlay (JStr (ascii ''hi''))]"]
  show ?thesis by blast
qed

end
